theory Spec2Isabelle
  imports Main "HOL-Library.Multiset" "HOL-Library.Code_Target_Numeral"
begin

section \<open>JavaScript values and property lookup\<close>

text \<open>
  The role of a profile and the role asked for at signup are untyped JavaScript values.
  Only what the permission code looks at is kept: truthiness, strict equality with a
  string literal, and membership in an array of strings.
\<close>

datatype jsval = JUndefined | JNull | JBool bool | JNum int | JStr string

fun truthy :: "jsval \<Rightarrow> bool" where
  "truthy JUndefined = False"
| "truthy JNull = False"
| "truthy (JBool b) = b"
| "truthy (JNum n) = (n \<noteq> 0)"
| "truthy (JStr s) = (s \<noteq> [])"

text \<open>
  \<^verbatim>\<open>array.includes(v)\<close> on an array of string literals: only a string value can be
  equal to an element.
\<close>

fun array_includes :: "string list \<Rightarrow> jsval \<Rightarrow> bool" where
  "array_includes xs (JStr s) = (s \<in> set xs)"
| "array_includes xs v = False"

datatype js_error = TypeError

text \<open>
  \<^verbatim>\<open>obj[key]\<close> on an object literal whose own properties are arrays of strings. A key
  that is not an own property is looked up in \<^verbatim>\<open>Object.prototype\<close>, whose members
  are functions (and the prototype object itself for \<^verbatim>\<open>__proto__\<close>); any other
  key gives \<^verbatim>\<open>undefined\<close>.
\<close>

datatype property = Roles "string list" | Inherited | Absent

definition object_prototype_keys :: "string list" where
  "object_prototype_keys =
    [''constructor'', ''__defineGetter__'', ''__defineSetter__'', ''hasOwnProperty'',
     ''__lookupGetter__'', ''__lookupSetter__'', ''isPrototypeOf'', ''propertyIsEnumerable'',
     ''toString'', ''valueOf'', ''__proto__'', ''toLocaleString'']"

definition get_property :: "(string \<times> string list) list \<Rightarrow> string \<Rightarrow> property" where
  "get_property obj key =
    (case map_of obj key of
       Some v \<Rightarrow> Roles v
     | None \<Rightarrow> if key \<in> set object_prototype_keys then Inherited else Absent)"

section \<open>JavaScript numbers and \<^verbatim>\<open>parseInt\<close>\<close>

text \<open>
  A JavaScript number is a double. An integer of at most 53 significant bits is held
  exactly; a larger one is rounded to 53 significant bits, to nearest and to even on a
  tie, and \<open>None\<close> is the overflow to \<^verbatim>\<open>Infinity\<close>.
\<close>

fun excess_bits :: "nat \<Rightarrow> nat" where
  "excess_bits n = (if n < 2 ^ 53 then 0 else Suc (excess_bits (n div 2)))"

declare excess_bits.simps [simp del]

definition to_double :: "nat \<Rightarrow> nat option" where
  "to_double n =
    (let e = excess_bits n;
         q = n div 2 ^ e;
         r = n mod 2 ^ e;
         m = (if 2 ^ e < 2 * r \<or> (2 * r = 2 ^ e \<and> odd q) then q + 1 else q);
         v = m * 2 ^ e
     in if 2 ^ 1024 \<le> v then None else Some v)"

text \<open>
  An integer column read into a JavaScript number, as happens to every row the client
  returns. The columns of the store hold at most 64 bits, so the overflow does not occur;
  the model leaves such a value as it is.
\<close>

definition js_number :: "int \<Rightarrow> int" where
  "js_number k =
    (case to_double (nat \<bar>k\<bar>) of
       Some v \<Rightarrow> if k < 0 then - int v else int v
     | None \<Rightarrow> k)"

text \<open>
  \<^verbatim>\<open>parseInt(string)\<close> with no radix: leading white space is skipped, then a sign, then
  \<^verbatim>\<open>0x\<close> or \<^verbatim>\<open>0X\<close> selects radix 16, then the longest run of digits is read and
  the rest ignored. The result is \<open>None\<close> for \<^verbatim>\<open>NaN\<close> (no digit) and for an
  infinity, both of which \<^verbatim>\<open>JSON.stringify\<close> writes as \<^verbatim>\<open>null\<close>; minus zero is zero.
  A \<open>string\<close> here is a list of code units below 256, so the white space characters
  are the six of ASCII and the no-break space.
  The value of the digits is rounded correctly to a double; ECMAScript leaves an
  implementation free to approximate only beyond the 20th significant decimal digit.
\<close>

definition StrWhiteSpaceChar :: "char \<Rightarrow> bool" where
  "StrWhiteSpaceChar c =
    (c \<in> set [CHR 0x09, CHR 0x0A, CHR 0x0B, CHR 0x0C, CHR 0x0D, CHR '' '', CHR 0xA0])"

definition digit_value :: "char \<Rightarrow> nat option" where
  "digit_value =
    map_of [(CHR ''0'', 0), (CHR ''1'', 1), (CHR ''2'', 2), (CHR ''3'', 3), (CHR ''4'', 4),
            (CHR ''5'', 5), (CHR ''6'', 6), (CHR ''7'', 7), (CHR ''8'', 8), (CHR ''9'', 9),
            (CHR ''a'', 10), (CHR ''b'', 11), (CHR ''c'', 12), (CHR ''d'', 13),
            (CHR ''e'', 14), (CHR ''f'', 15), (CHR ''A'', 10), (CHR ''B'', 11),
            (CHR ''C'', 12), (CHR ''D'', 13), (CHR ''E'', 14), (CHR ''F'', 15)]"

definition radix_digit :: "nat \<Rightarrow> char \<Rightarrow> nat option" where
  "radix_digit R c =
    (case digit_value c of
       Some v \<Rightarrow> if v < R then Some v else None
     | None \<Rightarrow> None)"

definition is_digit :: "nat \<Rightarrow> char \<Rightarrow> bool" where
  "is_digit R c = (radix_digit R c \<noteq> None)"

definition digits_value :: "nat \<Rightarrow> string \<Rightarrow> nat" where
  "digits_value R Z =
    foldl (\<lambda>n c. n * R + (case radix_digit R c of Some v \<Rightarrow> v | None \<Rightarrow> 0)) 0 Z"

definition parseInt :: "string \<Rightarrow> int option" where
  "parseInt string =
    (let S = dropWhile StrWhiteSpaceChar string;
         negative = (take 1 S = ''-'');
         S1 = (if take 1 S = ''+'' \<or> take 1 S = ''-'' then drop 1 S else S);
         stripPrefix = (take 2 S1 = ''0x'' \<or> take 2 S1 = ''0X'');
         R = (if stripPrefix then 16 else 10);
         S2 = (if stripPrefix then drop 2 S1 else S1);
         Z = takeWhile (is_digit R) S2
     in if Z = [] then None
        else (case to_double (digits_value R Z) of
                None \<Rightarrow> None
              | Some v \<Rightarrow> Some (if negative then - int v else int v)))"

section \<open>The permission matrix (backend/server.js, frontend/src/permissions.js)\<close>

text \<open>
  What \<^verbatim>\<open>getUserProfile\<close> returns, as far as the checks read it: \<open>user_id\<close> is the
  user's \<^verbatim>\<open>id\<close>, \<open>role\<close> the \<^verbatim>\<open>role\<close> column of the profile row.
\<close>

record profile =
  user_id :: string
  role :: jsval

text \<open>The object literal \<^verbatim>\<open>permissions\<close> of \<^verbatim>\<open>hasPermission\<close> in server.js.\<close>

definition permissions :: "(string \<times> string list) list" where
  "permissions =
    [(''view_all_requests'', [''ADMIN'', ''MANAGER'']),
     (''view_own_requests'', [''ADMIN'', ''MANAGER'', ''TECHNICIAN'', ''EMPLOYEE'']),
     (''create_request'', [''ADMIN'', ''MANAGER'', ''EMPLOYEE'']),
     (''update_request_stage'', [''ADMIN'', ''MANAGER'', ''TECHNICIAN'']),
     (''delete_request'', [''ADMIN'', ''MANAGER'']),
     (''add_notes'', [''ADMIN'', ''MANAGER'', ''EMPLOYEE'']),
     (''add_instructions'', [''ADMIN'', ''MANAGER'']),
     (''add_worksheet'', [''ADMIN'']),
     (''manage_equipment'', [''ADMIN'', ''MANAGER'']),
     (''manage_workcenters'', [''ADMIN'', ''MANAGER'']),
     (''manage_teams'', [''ADMIN'', ''MANAGER'']),
     (''change_user_roles'', [''ADMIN''])]"

text \<open>
  \<^verbatim>\<open>hasPermission(userProfile, action)\<close> of server.js. \<open>None\<close> is a null or undefined
  profile. An array is truthy, so an own entry goes to \<^verbatim>\<open>includes\<close>; an inherited
  member of \<^verbatim>\<open>Object.prototype\<close> is truthy too but has no \<^verbatim>\<open>includes\<close>, and
  calling it throws a TypeError.
\<close>

definition hasPermission :: "profile option \<Rightarrow> string \<Rightarrow> js_error + bool" where
  "hasPermission userProfile action =
    (case userProfile of
       None \<Rightarrow> Inr False
     | Some p \<Rightarrow>
         if \<not> truthy (role p) then Inr False
         else if role p = JStr ''ADMIN'' then Inr True
         else (case get_property permissions action of
                 Roles allowedRoles \<Rightarrow> Inr (array_includes allowedRoles (role p))
               | Inherited \<Rightarrow> Inl TypeError
               | Absent \<Rightarrow> Inr False))"

text \<open>The object literal \<^verbatim>\<open>permissions\<close> of \<^verbatim>\<open>hasPermission\<close> in permissions.js.\<close>

definition frontend_permissions :: "(string \<times> string list) list" where
  "frontend_permissions =
    [(''view_all_requests'', [''ADMIN'', ''MANAGER'']),
     (''view_own_requests'', [''ADMIN'', ''MANAGER'', ''TECHNICIAN'', ''EMPLOYEE'']),
     (''create_request'', [''ADMIN'', ''MANAGER'', ''EMPLOYEE'']),
     (''update_request_stage'', [''ADMIN'', ''MANAGER'', ''TECHNICIAN'']),
     (''delete_request'', [''ADMIN'', ''MANAGER'']),
     (''add_notes'', [''ADMIN'', ''MANAGER'', ''EMPLOYEE'']),
     (''add_instructions'', [''ADMIN'', ''MANAGER'']),
     (''add_worksheet'', [''ADMIN'']),
     (''manage_equipment'', [''ADMIN'', ''MANAGER'']),
     (''manage_workcenters'', [''ADMIN'', ''MANAGER'']),
     (''manage_teams'', [''ADMIN'', ''MANAGER'']),
     (''change_user_roles'', [''ADMIN''])]"

text \<open>\<^verbatim>\<open>hasPermission(user, action)\<close> of permissions.js.\<close>

definition frontend_hasPermission :: "profile option \<Rightarrow> string \<Rightarrow> js_error + bool" where
  "frontend_hasPermission user action =
    (case user of
       None \<Rightarrow> Inr False
     | Some p \<Rightarrow>
         if \<not> truthy (role p) then Inr False
         else if role p = JStr ''ADMIN'' then Inr True
         else (case get_property frontend_permissions action of
                 Roles allowedRoles \<Rightarrow> Inr (array_includes allowedRoles (role p))
               | Inherited \<Rightarrow> Inl TypeError
               | Absent \<Rightarrow> Inr False))"

section \<open>Replies and gates\<close>

text \<open>
  Rows of the tables the routes below touch, with the columns they read or write;
  \<open>req_id\<close> and \<open>equipment_id\<close> are the \<^verbatim>\<open>id\<close> columns. A null
  \<^verbatim>\<open>technician_id\<close> or \<^verbatim>\<open>created_by_user_id\<close> is \<open>None\<close>, and so is the
  \<^verbatim>\<open>request_id\<close> of a history row or a note when the handler sends \<^verbatim>\<open>null\<close>.
\<close>

record request =
  req_id :: int
  stage :: string
  blocked :: bool
  created_by_user_id :: "string option"
  technician_id :: "string option"
  created_at :: nat

record stage_history =
  request_id :: "int option"
  from_stage :: "string option"
  to_stage :: "string option"
  changed_by_user_id :: string

record request_note =
  note_request_id :: "int option"
  note_text :: string
  note_created_by_user_id :: string

record equipment_row =
  equipment_id :: int
  equipment_name :: string
  equipment_created_at :: nat

text \<open>
  What a handler sends: \<^verbatim>\<open>res.status(n).json(body)\<close>, with \<^verbatim>\<open>res.json(body)\<close> being
  status 200. \<open>Unanswered\<close> is an async middleware that threw: nothing is sent.
\<close>

datatype body =
    Message string
  | RequestList "request list"
  | EquipmentList "equipment_row list"
  | StageUpdated string request
  | NoteAdded string request_note
  | SignedUp string "string option"

datatype reply = Reply nat body | Unanswered js_error

datatype 'a gate = Stop reply | Next 'a

text \<open>
  \<^verbatim>\<open>requirePermission(action)\<close>. The actor is the result of \<^verbatim>\<open>getUserProfile(req)\<close>,
  which asks the identity provider and the profiles table: \<open>None\<close> when the token or
  the profile cannot be resolved. On \<open>Next\<close> the profile is stored in
  \<^verbatim>\<open>req.userProfile\<close> for the handler.
\<close>

definition requirePermission :: "string \<Rightarrow> profile option \<Rightarrow> profile gate" where
  "requirePermission action actor =
    (case actor of
       None \<Rightarrow> Stop (Reply 401 (Message ''Not authenticated''))
     | Some userProfile \<Rightarrow>
         (case hasPermission (Some userProfile) action of
            Inl e \<Rightarrow> Stop (Unanswered e)
          | Inr allowed \<Rightarrow>
              if \<not> allowed
              then Stop (Reply 403 (Message ''You don't have permission to perform this action''))
              else Next userProfile))"

text \<open>\<^verbatim>\<open>requireRequestAccess()\<close>: on \<open>Next\<close> the pair is \<^verbatim>\<open>req.userProfile\<close> and
  \<^verbatim>\<open>req.canViewAll\<close>.\<close>

definition requireRequestAccess :: "profile option \<Rightarrow> (profile \<times> bool) gate" where
  "requireRequestAccess actor =
    (case actor of
       None \<Rightarrow> Stop (Reply 401 (Message ''Not authenticated''))
     | Some userProfile \<Rightarrow>
         (case hasPermission (Some userProfile) ''view_all_requests'' of
            Inl e \<Rightarrow> Stop (Unanswered e)
          | Inr all \<Rightarrow>
              if all then Next (userProfile, True)
              else (case hasPermission (Some userProfile) ''view_own_requests'' of
                      Inl e \<Rightarrow> Stop (Unanswered e)
                    | Inr own \<Rightarrow>
                        if own then Next (userProfile, False)
                        else Stop (Reply 403
                               (Message ''You don't have permission to view requests'')))))"

section \<open>The store\<close>

record auth_user =
  auth_id :: string
  auth_email :: string
  meta_role :: jsval

text \<open>
  The tables, and \<open>id_literal\<close>: how the store reads the text compared with an
  integer \<^verbatim>\<open>id\<close> column in \<^verbatim>\<open>.eq('id', text)\<close>, \<open>None\<close> when it rejects the text.
  The client sends the text as it is; its reading belongs to the store and is not in
  the handlers.
\<close>

record db =
  id_literal :: "string \<Rightarrow> int option"
  maintenance_requests :: "request list"
  request_stage_history :: "stage_history list"
  request_notes :: "request_note list"
  equipment :: "equipment_row list"
  profiles :: "profile list"
  auth_users :: "auth_user list"

text \<open>
  The store is a hosted service. Each call of the client either runs (\<open>Ok\<close>), resolves
  with \<^verbatim>\<open>{ data: null, error }\<close> (\<open>Failed\<close>, with the error's message), or rejects
  (\<open>Thrown\<close>), which the handler's \<^verbatim>\<open>catch\<close> turns into status 500. Which of the three
  happens is not decided by the handler, so each handler takes the outcome of each of its
  calls as an argument. A call that fails or throws leaves the store as it was.
\<close>

datatype outcome = Ok | Failed string | Thrown string

text \<open>\<^verbatim>\<open>.single()\<close>: the one row selected, an error when there is none or several.\<close>

definition single_row :: "'a list \<Rightarrow> 'a option" where
  "single_row found = (case found of [r] \<Rightarrow> Some r | _ \<Rightarrow> None)"

definition single_error :: string where
  "single_error = ''JSON object requested, multiple (or no) rows returned''"

text \<open>
  \<^verbatim>\<open>const { data } = await query.single()\<close>, the error not looked at: \<open>Inl\<close> is a
  rejected promise, \<open>Inr None\<close> is \<^verbatim>\<open>data\<close> being null.
\<close>

definition select_single :: "outcome \<Rightarrow> 'a list option \<Rightarrow> string + 'a option" where
  "select_single q rows =
    (case q of
       Thrown m \<Rightarrow> Inl m
     | Failed m \<Rightarrow> Inr None
     | Ok \<Rightarrow> (case rows of None \<Rightarrow> Inr None | Some found \<Rightarrow> Inr (single_row found)))"

text \<open>
  \<^verbatim>\<open>.from('maintenance_requests')....eq('id', id)\<close>: the rows whose id is the store's
  reading of the text, \<open>None\<close> when the store rejects the text and the query fails.
\<close>

definition requests_eq_id :: "db \<Rightarrow> string \<Rightarrow> request list option" where
  "requests_eq_id d rid =
    (case id_literal d rid of
       None \<Rightarrow> None
     | Some k \<Rightarrow> Some (filter (\<lambda>r. req_id r = k) (maintenance_requests d)))"

definition literal_error :: string where
  "literal_error = ''invalid input syntax for type integer''"

text \<open>\<^verbatim>\<open>.order(column, { ascending: false })\<close>; the order among equal keys is the store's.\<close>

definition order_desc :: "('a \<Rightarrow> nat) \<Rightarrow> 'a list \<Rightarrow> 'a list" where
  "order_desc f rows = rev (sort_key f rows)"

section \<open>Maintenance request routes\<close>

text \<open>
  The handler of \<^verbatim>\<open>GET /api/requests\<close>, after the gate. The response rows are the
  selected rows with display names added (\<^verbatim>\<open>...req\<close> keeps every column), so the
  rows themselves stand for them.
\<close>

definition requests_handler :: "db \<Rightarrow> outcome \<Rightarrow> profile \<Rightarrow> bool \<Rightarrow> reply" where
  "requests_handler d q userProfile canViewAll =
    (let query =
       (if \<not> canViewAll then
          if role userProfile = JStr ''TECHNICIAN''
          then filter (\<lambda>r. technician_id r = Some (user_id userProfile))
          else if role userProfile = JStr ''EMPLOYEE''
          then filter (\<lambda>r. created_by_user_id r = Some (user_id userProfile))
          else (\<lambda>rows. rows)
        else (\<lambda>rows. rows))
     in case q of
          Thrown m \<Rightarrow> Reply 500 (Message m)
        | Failed m \<Rightarrow> Reply 400 (Message m)
        | Ok \<Rightarrow> Reply 200 (RequestList (order_desc created_at (query (maintenance_requests d)))))"

definition get_requests :: "db \<Rightarrow> outcome \<Rightarrow> profile option \<Rightarrow> reply" where
  "get_requests d q actor =
    (case requireRequestAccess actor of
       Stop r \<Rightarrow> r
     | Next (userProfile, canViewAll) \<Rightarrow> requests_handler d q userProfile canViewAll)"

text \<open>
  \<^verbatim>\<open>PUT /api/requests/:id/stage\<close>. \<open>rid\<close> is the path parameter, a string. The
  three queries on the request compare the \<^verbatim>\<open>id\<close> column with that string; the
  history row carries \<^verbatim>\<open>parseInt(id)\<close>. A field missing from the request body is
  \<open>None\<close>: it is dropped from the JSON sent to the store, so the column keeps its
  value. The four calls to the store are, in order, the TECHNICIAN's lookup of the
  record, the select of the current stage, the update and the insert into the history;
  the result of the last one is awaited and not looked at. The row in the reply is the
  updated row as the client returns it, its id a JavaScript number.
\<close>

record stage_body =
  body_stage :: "string option"
  body_blocked :: "bool option"

record stage_faults =
  lookup_q :: outcome
  current_q :: outcome
  update_q :: outcome
  history_q :: outcome

definition apply_stage_body :: "stage_body \<Rightarrow> request \<Rightarrow> request" where
  "apply_stage_body b r =
    r\<lparr>stage := (case body_stage b of None \<Rightarrow> stage r | Some s \<Rightarrow> s),
      blocked := (case body_blocked b of None \<Rightarrow> blocked r | Some x \<Rightarrow> x)\<rparr>"

definition stage_handler ::
  "db \<Rightarrow> stage_faults \<Rightarrow> profile \<Rightarrow> string \<Rightarrow> stage_body \<Rightarrow> reply \<times> db" where
  "stage_handler d f userProfile rid b =
    (let matching = requests_eq_id d rid;
         denied = Reply 403 (Message ''You can only update requests assigned to you'')
     in case (if role userProfile = JStr ''TECHNICIAN''
              then (case select_single (lookup_q f) matching of
                      Inl m \<Rightarrow> Some (Reply 500 (Message m))
                    | Inr None \<Rightarrow> Some denied
                    | Inr (Some request) \<Rightarrow>
                        if technician_id request \<noteq> Some (user_id userProfile)
                        then Some denied else None)
              else None) of
          Some early \<Rightarrow> (early, d)
        | None \<Rightarrow>
           (case select_single (current_q f) matching of
              Inl m \<Rightarrow> (Reply 500 (Message m), d)
            | Inr current \<Rightarrow>
               (case update_q f of
                  Thrown m \<Rightarrow> (Reply 500 (Message m), d)
                | Failed m \<Rightarrow> (Reply 400 (Message m), d)
                | Ok \<Rightarrow>
                   (case matching of
                      None \<Rightarrow> (Reply 400 (Message literal_error), d)
                    | Some found \<Rightarrow>
                       (case single_row found of
                          None \<Rightarrow> (Reply 400 (Message single_error), d)
                        | Some old \<Rightarrow>
                           (let updated = apply_stage_body b old;
                                d1 = d\<lparr>maintenance_requests :=
                                         map (\<lambda>r. if req_id r = req_id old then updated else r)
                                           (maintenance_requests d)\<rparr>;
                                data = updated\<lparr>req_id := js_number (req_id updated)\<rparr>;
                                entry = \<lparr>request_id = parseInt rid,
                                         from_stage = (case current of
                                                         None \<Rightarrow> None
                                                       | Some c \<Rightarrow>
                                                           if stage c = [] then None
                                                           else Some (stage c)),
                                         to_stage = body_stage b,
                                         changed_by_user_id = user_id userProfile\<rparr>
                            in case history_q f of
                                 Thrown m \<Rightarrow> (Reply 500 (Message m), d1)
                               | Failed m \<Rightarrow>
                                   (Reply 200 (StageUpdated ''Stage updated'' data), d1)
                               | Ok \<Rightarrow>
                                   (Reply 200 (StageUpdated ''Stage updated'' data),
                                    d1\<lparr>request_stage_history :=
                                         request_stage_history d1 @ [entry]\<rparr>)))))))"

definition put_request_stage ::
  "db \<Rightarrow> stage_faults \<Rightarrow> profile option \<Rightarrow> string \<Rightarrow> stage_body \<Rightarrow> reply \<times> db" where
  "put_request_stage d f actor rid b =
    (case requirePermission ''update_request_stage'' actor of
       Stop r \<Rightarrow> (r, d)
     | Next userProfile \<Rightarrow> stage_handler d f userProfile rid b)"

text \<open>
  \<^verbatim>\<open>POST /api/requests/:id/notes\<close>. The EMPLOYEE's lookup compares the \<^verbatim>\<open>id\<close> column
  with the path parameter \<open>rid\<close>; the note is inserted with \<^verbatim>\<open>parseInt(id)\<close> as its
  \<^verbatim>\<open>request_id\<close>.
\<close>

record note_faults =
  owner_q :: outcome
  insert_q :: outcome

definition notes_handler ::
  "db \<Rightarrow> note_faults \<Rightarrow> profile \<Rightarrow> string \<Rightarrow> string \<Rightarrow> reply \<times> db" where
  "notes_handler d f userProfile rid body_note =
    (let denied = Reply 403 (Message ''You can only add notes to your own requests'')
     in case (if role userProfile = JStr ''EMPLOYEE''
              then (case select_single (owner_q f) (requests_eq_id d rid) of
                      Inl m \<Rightarrow> Some (Reply 500 (Message m))
                    | Inr None \<Rightarrow> Some denied
                    | Inr (Some request) \<Rightarrow>
                        if created_by_user_id request \<noteq> Some (user_id userProfile)
                        then Some denied else None)
              else None) of
          Some early \<Rightarrow> (early, d)
        | None \<Rightarrow>
           (case insert_q f of
              Thrown m \<Rightarrow> (Reply 500 (Message m), d)
            | Failed m \<Rightarrow> (Reply 400 (Message m), d)
            | Ok \<Rightarrow>
               (let data = \<lparr>note_request_id = parseInt rid, note_text = body_note,
                            note_created_by_user_id = user_id userProfile\<rparr>
                in (Reply 200 (NoteAdded ''Note added'' data),
                    d\<lparr>request_notes := request_notes d @ [data]\<rparr>))))"

definition post_request_notes ::
  "db \<Rightarrow> note_faults \<Rightarrow> profile option \<Rightarrow> string \<Rightarrow> string \<Rightarrow> reply \<times> db" where
  "post_request_notes d f actor rid body_note =
    (case requirePermission ''add_notes'' actor of
       Stop r \<Rightarrow> (r, d)
     | Next userProfile \<Rightarrow> notes_handler d f userProfile rid body_note)"

section \<open>Equipment routes\<close>

text \<open>
  \<^verbatim>\<open>GET /api/equipment\<close> is registered with its handler alone, no gate before it; the
  handler does not look at the actor.
\<close>

definition get_equipment :: "db \<Rightarrow> outcome \<Rightarrow> profile option \<Rightarrow> reply" where
  "get_equipment d q actor =
    (case q of
       Thrown m \<Rightarrow> Reply 500 (Message m)
     | Failed m \<Rightarrow> Reply 400 (Message m)
     | Ok \<Rightarrow> Reply 200 (EquipmentList (order_desc equipment_created_at (equipment d))))"

text \<open>The gate registered before the handler of \<^verbatim>\<open>POST /api/equipment\<close>.\<close>

definition post_equipment_gate :: "profile option \<Rightarrow> profile gate" where
  "post_equipment_gate actor = requirePermission ''manage_equipment'' actor"

section \<open>Signup\<close>

text \<open>
  \<^verbatim>\<open>POST /api/auth/signup\<close> has no gate and reads no actor. The body's name and
  password go to the identity provider unchanged and are left out, as are the wait for
  the trigger and the final confirmation of the user's email, which change neither the
  reply nor a role.
\<close>

record signup_body =
  body_email :: string
  body_role :: jsval

text \<open>
  What \<^verbatim>\<open>supabase.auth.signUp\<close> gives back: an error (its message, and whether the
  lower-cased message contains \<^verbatim>\<open>already registered\<close>), a new user (its id), no
  user, or a rejected promise.
\<close>

datatype sign_up_result =
    SignUpError string bool
  | SignUpUser string
  | SignUpNoUser
  | SignUpThrown string

text \<open>
  What the handler does not decide: whether the service-role client exists, what the
  provider answers, whether the admin lookup of the error branch found and confirmed an
  unconfirmed user, the profile row that the store's trigger has created for the new
  user when the handler's update runs (\<open>None\<close>: no row yet), and the outcome of that
  update.
\<close>

record signup_env =
  admin_client :: bool
  sign_up :: sign_up_result
  activated_existing :: bool
  trigger_profile :: "jsval option"
  profile_update :: outcome

definition validRoles :: "string list" where
  "validRoles = [''ADMIN'', ''MANAGER'', ''TECHNICIAN'', ''EMPLOYEE'']"

definition post_auth_signup :: "db \<Rightarrow> signup_env \<Rightarrow> signup_body \<Rightarrow> reply \<times> db" where
  "post_auth_signup d env b =
    (let userRole = (if array_includes validRoles (body_role b) then body_role b
                     else JStr ''EMPLOYEE'');
         done = Reply 200 (SignedUp ''Signup successful! You can now log in.''
                  (Some (body_email b)))
     in case sign_up env of
          SignUpThrown m \<Rightarrow> (Reply 500 (Message m), d)
        | SignUpError m already \<Rightarrow>
            (if already then
               if admin_client env \<and> activated_existing env
               then Reply 400 (Message
                 ''User already exists. Your account has been activated. Please try logging in.'')
               else Reply 400 (Message ''User already exists. Please try logging in instead.'')
             else Reply 400 (Message m), d)
        | SignUpNoUser \<Rightarrow>
            (Reply 200 (SignedUp ''Signup successful! You can now log in.'' None), d)
        | SignUpUser uid \<Rightarrow>
            (let d1 = d\<lparr>auth_users := auth_users d @
                          [\<lparr>auth_id = uid, auth_email = body_email b, meta_role = userRole\<rparr>],
                        profiles := (case trigger_profile env of
                                       None \<Rightarrow> profiles d
                                     | Some r \<Rightarrow> profiles d @ [\<lparr>user_id = uid, role = r\<rparr>])\<rparr>
             in case profile_update env of
                  Thrown m \<Rightarrow> (Reply 500 (Message m), d1)
                | Failed m \<Rightarrow>
                    if admin_client env
                    then (Reply 500 (Message
                      ''User created but failed to set role. Please contact support.''), d1)
                    else (done, d1)
                | Ok \<Rightarrow>
                    (done,
                     d1\<lparr>profiles := map (\<lambda>p. if user_id p = uid then p\<lparr>role := userRole\<rparr>
                                             else p) (profiles d1)\<rparr>)))"

section \<open>Example data\<close>

text \<open>
  A store that reads a nonempty run of decimal digits as the integer it denotes and
  rejects any other text.
\<close>

definition decimal_id :: "string \<Rightarrow> int option" where
  "decimal_id s =
    (if s \<noteq> [] \<and> list_all (is_digit 10) s then Some (int (digits_value 10 s)) else None)"

definition example_requests :: "request list" where
  "example_requests =
    [\<lparr>req_id = 1, stage = ''NEW_REQUEST'', blocked = False, created_by_user_id = Some ''e1'',
      technician_id = Some ''t1'', created_at = 5\<rparr>,
     \<lparr>req_id = 2, stage = ''NEW_REQUEST'', blocked = False, created_by_user_id = Some ''e2'',
      technician_id = Some ''t2'', created_at = 7\<rparr>]"

definition example_db :: db where
  "example_db =
    \<lparr>id_literal = decimal_id,
     maintenance_requests = example_requests,
     request_stage_history = [], request_notes = [],
     equipment = [\<lparr>equipment_id = 1, equipment_name = ''Lathe'', equipment_created_at = 3\<rparr>],
     profiles = [], auth_users = []\<rparr>"



definition actor_with :: "string \<Rightarrow> string \<Rightarrow> profile" where
  "actor_with uid r = \<lparr>user_id = uid, role = JStr r\<rparr>"

definition all_ok :: stage_faults where
  "all_ok = \<lparr>lookup_q = Ok, current_q = Ok, update_q = Ok, history_q = Ok\<rparr>"

definition notes_ok :: note_faults where
  "notes_ok = \<lparr>owner_q = Ok, insert_q = Ok\<rparr>"

definition to_in_progress :: stage_body where
  "to_in_progress = \<lparr>body_stage = Some ''IN_PROGRESS'', body_blocked = None\<rparr>"

definition history_fails :: stage_faults where
  "history_fails = \<lparr>lookup_q = Ok, current_q = Ok, update_q = Ok,
                     history_q = Failed ''new row violates row-level security policy''\<rparr>"

definition example_signup_env :: signup_env where
  "example_signup_env =
    \<lparr>admin_client = True, sign_up = SignUpUser ''n1'', activated_existing = False,
     trigger_profile = Some (JStr ''EMPLOYEE''), profile_update = Ok\<rparr>"

section \<open>The permission matrix\<close>

text \<open>
  Claim C1. Whatever the action, in the rule table or not, an actor whose role is ADMIN
  is allowed, by the backend check and by the frontend check alike: the ADMIN test comes
  before the table is consulted.
\<close>

theorem admin_always_allowed:
  "role p = JStr ''ADMIN'' \<Longrightarrow>
     hasPermission (Some p) action = Inr True \<and>
     frontend_hasPermission (Some p) action = Inr True"
  by (simp add: hasPermission_def frontend_hasPermission_def)

theorem admin_always_allowed_witness:
  "role \<lparr>user_id = ''u1'', role = JStr ''ADMIN''\<rparr> = JStr ''ADMIN'' \<and>
   hasPermission (Some \<lparr>user_id = ''u1'', role = JStr ''ADMIN''\<rparr>) ''constructor'' = Inr True \<and>
   frontend_hasPermission (Some \<lparr>user_id = ''u1'', role = JStr ''ADMIN''\<rparr>) ''constructor''
     = Inr True"
  using admin_always_allowed [of "\<lparr>user_id = ''u1'', role = JStr ''ADMIN''\<rparr>" "''constructor''"]
  by simp

lemma view_all_eval:
  "hasPermission (Some p) ''view_all_requests'' =
     Inr (role p = JStr ''ADMIN'' \<or> role p = JStr ''MANAGER'')"
  by (cases "role p") (auto simp: hasPermission_def get_property_def permissions_def)

lemma view_own_eval:
  "hasPermission (Some p) ''view_own_requests'' =
     Inr (role p \<in> {JStr ''ADMIN'', JStr ''MANAGER'', JStr ''TECHNICIAN'', JStr ''EMPLOYEE''})"
  by (cases "role p") (auto simp: hasPermission_def get_property_def permissions_def)

lemma stage_eval:
  "hasPermission (Some p) ''update_request_stage'' =
     Inr (role p \<in> {JStr ''ADMIN'', JStr ''MANAGER'', JStr ''TECHNICIAN''})"
  by (cases "role p") (auto simp: hasPermission_def get_property_def permissions_def)

lemma notes_eval:
  "hasPermission (Some p) ''add_notes'' =
     Inr (role p \<in> {JStr ''ADMIN'', JStr ''MANAGER'', JStr ''EMPLOYEE''})"
  by (cases "role p") (auto simp: hasPermission_def get_property_def permissions_def)

lemma hasPermission_table:
  "truthy (role p) \<Longrightarrow> role p \<noteq> JStr ''ADMIN'' \<Longrightarrow>
   hasPermission (Some p) action =
     (case map_of permissions action of
        Some allowedRoles \<Rightarrow> Inr (array_includes allowedRoles (role p))
      | None \<Rightarrow> if action \<in> set object_prototype_keys then Inl TypeError else Inr False)"
  by (simp add: hasPermission_def get_property_def split: option.splits)

text \<open>
  Claim C2. For a role other than ADMIN, an action with an entry in the table is allowed
  exactly to the roles of its entry (lemma \<open>hasPermission_table\<close>), but an action
  without an entry is not always answered with false: for the name of a member of
  \<^verbatim>\<open>Object.prototype\<close>, here \<^verbatim>\<open>constructor\<close> asked by a MANAGER, the lookup finds the
  inherited member and both checks throw a TypeError instead of returning false.
\<close>

theorem inherited_key_throws:
  "map_of permissions ''constructor'' = None \<and>
   hasPermission (Some (actor_with ''m1'' ''MANAGER'')) ''constructor'' = Inl TypeError \<and>
   frontend_hasPermission (Some (actor_with ''m1'' ''MANAGER'')) ''constructor'' = Inl TypeError"
  by (simp add: hasPermission_def frontend_hasPermission_def get_property_def permissions_def
      frontend_permissions_def object_prototype_keys_def actor_with_def)

section \<open>Visibility of maintenance requests\<close>

lemma mset_order_desc: "mset (order_desc f rows) = mset rows"
  by (simp add: order_desc_def)

lemma get_requests_all:
  "hasPermission (Some u) ''view_all_requests'' = Inr True \<Longrightarrow>
   get_requests d Ok (Some u) =
     Reply 200 (RequestList (order_desc created_at (maintenance_requests d)))"
  by (simp add: get_requests_def requireRequestAccess_def requests_handler_def)

lemma get_requests_technician:
  "role u = JStr ''TECHNICIAN'' \<Longrightarrow>
   get_requests d Ok (Some u) =
     Reply 200 (RequestList (order_desc created_at
       (filter (\<lambda>r. technician_id r = Some (user_id u)) (maintenance_requests d))))"
  by (simp add: get_requests_def requireRequestAccess_def requests_handler_def
      view_all_eval view_own_eval)

lemma get_requests_employee:
  "role u = JStr ''EMPLOYEE'' \<Longrightarrow>
   get_requests d Ok (Some u) =
     Reply 200 (RequestList (order_desc created_at
       (filter (\<lambda>r. created_by_user_id r = Some (user_id u)) (maintenance_requests d))))"
  by (simp add: get_requests_def requireRequestAccess_def requests_handler_def
      view_all_eval view_own_eval)

lemma get_requests_neither:
  "hasPermission (Some u) ''view_all_requests'' \<noteq> Inr True \<Longrightarrow>
   hasPermission (Some u) ''view_own_requests'' \<noteq> Inr True \<Longrightarrow>
   get_requests d q (Some u) =
     Reply 403 (Message ''You don't have permission to view requests'')"
  by (simp add: get_requests_def requireRequestAccess_def view_all_eval view_own_eval)

text \<open>
  Claim C3. Reading the request collection, with the store answering: an actor allowed
  \<^verbatim>\<open>view_all_requests\<close> gets every record; otherwise, allowed \<^verbatim>\<open>view_own_requests\<close>, a
  TECHNICIAN gets exactly the records whose \<^verbatim>\<open>technician_id\<close> is their id and an
  EMPLOYEE exactly those whose \<^verbatim>\<open>created_by_user_id\<close> is their id; an actor allowed
  neither is answered 403, whatever the store does, and not an empty list.
\<close>

theorem request_visibility:
  "(hasPermission (Some u) ''view_all_requests'' = Inr True \<longrightarrow>
      (\<exists>rows. get_requests d Ok (Some u) = Reply 200 (RequestList rows) \<and>
              mset rows = mset (maintenance_requests d))) \<and>
   (hasPermission (Some u) ''view_all_requests'' \<noteq> Inr True \<and>
    hasPermission (Some u) ''view_own_requests'' = Inr True \<and>
    role u = JStr ''TECHNICIAN'' \<longrightarrow>
      (\<exists>rows. get_requests d Ok (Some u) = Reply 200 (RequestList rows) \<and>
              mset rows = mset (filter (\<lambda>r. technician_id r = Some (user_id u))
                                 (maintenance_requests d)))) \<and>
   (hasPermission (Some u) ''view_all_requests'' \<noteq> Inr True \<and>
    hasPermission (Some u) ''view_own_requests'' = Inr True \<and>
    role u = JStr ''EMPLOYEE'' \<longrightarrow>
      (\<exists>rows. get_requests d Ok (Some u) = Reply 200 (RequestList rows) \<and>
              mset rows = mset (filter (\<lambda>r. created_by_user_id r = Some (user_id u))
                                 (maintenance_requests d)))) \<and>
   (hasPermission (Some u) ''view_all_requests'' \<noteq> Inr True \<and>
    hasPermission (Some u) ''view_own_requests'' \<noteq> Inr True \<longrightarrow>
      get_requests d q (Some u) =
        Reply 403 (Message ''You don't have permission to view requests''))"
  using get_requests_all [of u d] get_requests_technician [of u d]
    get_requests_employee [of u d] get_requests_neither [of u d q]
  by (simp add: mset_order_desc)

theorem request_visibility_witness:
  "(\<exists>rows. get_requests example_db Ok (Some (actor_with ''m1'' ''MANAGER'')) =
            Reply 200 (RequestList rows) \<and> mset rows = mset example_requests) \<and>
   (\<exists>rows. get_requests example_db Ok (Some (actor_with ''t1'' ''TECHNICIAN'')) =
            Reply 200 (RequestList rows) \<and> mset rows = {#example_requests ! 0#}) \<and>
   (\<exists>rows. get_requests example_db Ok (Some (actor_with ''e2'' ''EMPLOYEE'')) =
            Reply 200 (RequestList rows) \<and> mset rows = {#example_requests ! 1#}) \<and>
   get_requests example_db Ok (Some (actor_with ''g1'' ''GUEST'')) =
     Reply 403 (Message ''You don't have permission to view requests'')"
  using request_visibility [of "actor_with ''m1'' ''MANAGER''" example_db Ok]
    request_visibility [of "actor_with ''t1'' ''TECHNICIAN''" example_db Ok]
    request_visibility [of "actor_with ''e2'' ''EMPLOYEE''" example_db Ok]
    request_visibility [of "actor_with ''g1'' ''GUEST''" example_db Ok]
  by (simp add: view_all_eval view_own_eval actor_with_def example_db_def example_requests_def)

lemma gate_stops_other_roles:
  "role u \<noteq> JStr ''TECHNICIAN'' \<Longrightarrow> role u \<noteq> JStr ''EMPLOYEE'' \<Longrightarrow>
   hasPermission (Some u) ''view_all_requests'' \<noteq> Inr True \<Longrightarrow>
   hasPermission (Some u) ''view_own_requests'' = Inr False \<and>
   get_requests d q (Some u) =
     Reply 403 (Message ''You don't have permission to view requests'')"
  by (simp add: get_requests_def requireRequestAccess_def view_all_eval view_own_eval)

lemma own_scope_other_role:
  "role u \<noteq> JStr ''TECHNICIAN'' \<Longrightarrow> role u \<noteq> JStr ''EMPLOYEE'' \<Longrightarrow>
   requests_handler d Ok u False =
     Reply 200 (RequestList (order_desc created_at (maintenance_requests d)))"
  by (simp add: requests_handler_def)


section \<open>Ownership checks on writes\<close>

lemmas parse_defs = parseInt_def StrWhiteSpaceChar_def is_digit_def radix_digit_def
  digit_value_def digits_value_def to_double_def excess_bits.simps Let_def

lemma decimal_id_1: "decimal_id ''1'' = Some 1"
  by (simp add: decimal_id_def parse_defs)

lemma decimal_id_2: "decimal_id ''2'' = Some 2"
  by (simp add: decimal_id_def parse_defs)

lemma parseInt_1: "parseInt ''1'' = Some 1"
  by (simp add: parse_defs)

lemma js_number_1: "js_number 1 = 1"
  by (simp add: js_number_def parse_defs)

lemma single_row_Some: "single_row found = Some r \<Longrightarrow> found = [r]"
  by (cases found; cases "tl found") (auto simp: single_row_def split: list.splits)

lemma single_row_member:
  "single_row (filter P rows) = Some r \<Longrightarrow> r \<in> set rows \<and> P r"
proof -
  assume "single_row (filter P rows) = Some r"
  then have "filter P rows = [r]" by (rule single_row_Some)
  then have "r \<in> set (filter P rows)" by simp
  then show ?thesis by simp
qed

lemma select_single_found:
  "select_single q (requests_eq_id d rid) = Inr (Some r) \<Longrightarrow>
   r \<in> set (maintenance_requests d) \<and> id_literal d rid = Some (req_id r)"
proof -
  assume a: "select_single q (requests_eq_id d rid) = Inr (Some r)"
  then obtain k where k: "id_literal d rid = Some k"
    by (cases q; cases "id_literal d rid") (simp_all add: select_single_def requests_eq_id_def)
  with a have "single_row (filter (\<lambda>r. req_id r = k) (maintenance_requests d)) = Some r"
    by (cases q) (simp_all add: select_single_def requests_eq_id_def)
  then have "r \<in> set (maintenance_requests d) \<and> req_id r = k"
    by (rule single_row_member)
  with k show ?thesis by simp
qed

lemma stage_handler_technician_success:
  assumes "role u = JStr ''TECHNICIAN''"
    and "stage_handler d f u rid b = (Reply 200 payload, d')"
  shows "\<exists>r\<in>set (maintenance_requests d).
           id_literal d rid = Some (req_id r) \<and> technician_id r = Some (user_id u)"
proof (cases "select_single (lookup_q f) (requests_eq_id d rid)")
  case (Inl m)
  with assms show ?thesis by (simp add: stage_handler_def Let_def)
next
  case (Inr found)
  show ?thesis
  proof (cases found)
    case None
    with Inr assms show ?thesis by (simp add: stage_handler_def Let_def)
  next
    case (Some r)
    with Inr have mem: "r \<in> set (maintenance_requests d) \<and> id_literal d rid = Some (req_id r)"
      by (simp add: select_single_found)
    have "technician_id r = Some (user_id u)"
      using Inr Some assms by (simp add: stage_handler_def Let_def split: if_splits)
    with mem show ?thesis by blast
  qed
qed

lemma stage_handler_technician_denied:
  assumes "role u = JStr ''TECHNICIAN''"
    and "\<forall>r\<in>set (maintenance_requests d).
           id_literal d rid = Some (req_id r) \<longrightarrow> technician_id r \<noteq> Some (user_id u)"
    and "\<forall>m. lookup_q f \<noteq> Thrown m"
  shows "stage_handler d f u rid b =
           (Reply 403 (Message ''You can only update requests assigned to you''), d)"
proof (cases "select_single (lookup_q f) (requests_eq_id d rid)")
  case (Inl m)
  with assms(3) show ?thesis
    by (cases "lookup_q f") (simp_all add: select_single_def split: option.splits)
next
  case (Inr found)
  show ?thesis
  proof (cases found)
    case None
    with Inr assms(1) show ?thesis by (simp add: stage_handler_def Let_def)
  next
    case (Some r)
    with Inr have "r \<in> set (maintenance_requests d) \<and> id_literal d rid = Some (req_id r)"
      by (simp add: select_single_found)
    with assms(2) have "technician_id r \<noteq> Some (user_id u)" by blast
    with Inr Some assms(1) show ?thesis by (simp add: stage_handler_def Let_def)
  qed
qed

lemma put_request_stage_success:
  "put_request_stage d f actor rid b = (Reply 200 payload, d') \<Longrightarrow>
   \<exists>u. actor = Some u \<and> hasPermission (Some u) ''update_request_stage'' = Inr True \<and>
       stage_handler d f u rid b = (Reply 200 payload, d')"
  by (cases actor)
     (auto simp: put_request_stage_def requirePermission_def stage_eval split: if_splits)

lemma put_request_stage_allowed:
  "hasPermission (Some u) ''update_request_stage'' = Inr True \<Longrightarrow>
   put_request_stage d f (Some u) rid b = stage_handler d f u rid b"
  by (simp add: put_request_stage_def requirePermission_def)

lemma notes_handler_employee_success:
  assumes "role u = JStr ''EMPLOYEE''"
    and "notes_handler d f u rid body_note = (Reply 200 payload, d')"
  shows "\<exists>r\<in>set (maintenance_requests d).
           id_literal d rid = Some (req_id r) \<and> created_by_user_id r = Some (user_id u)"
proof (cases "select_single (owner_q f) (requests_eq_id d rid)")
  case (Inl m)
  with assms show ?thesis by (simp add: notes_handler_def Let_def)
next
  case (Inr found)
  show ?thesis
  proof (cases found)
    case None
    with Inr assms show ?thesis by (simp add: notes_handler_def Let_def)
  next
    case (Some r)
    with Inr have mem: "r \<in> set (maintenance_requests d) \<and> id_literal d rid = Some (req_id r)"
      by (simp add: select_single_found)
    have "created_by_user_id r = Some (user_id u)"
      using Inr Some assms by (simp add: notes_handler_def Let_def split: if_splits)
    with mem show ?thesis by blast
  qed
qed

lemma notes_handler_employee_denied:
  assumes "role u = JStr ''EMPLOYEE''"
    and "\<forall>r\<in>set (maintenance_requests d).
           id_literal d rid = Some (req_id r) \<longrightarrow> created_by_user_id r \<noteq> Some (user_id u)"
    and "\<forall>m. owner_q f \<noteq> Thrown m"
  shows "notes_handler d f u rid body_note =
           (Reply 403 (Message ''You can only add notes to your own requests''), d)"
proof (cases "select_single (owner_q f) (requests_eq_id d rid)")
  case (Inl m)
  with assms(3) show ?thesis
    by (cases "owner_q f") (simp_all add: select_single_def split: option.splits)
next
  case (Inr found)
  show ?thesis
  proof (cases found)
    case None
    with Inr assms(1) show ?thesis by (simp add: notes_handler_def Let_def)
  next
    case (Some r)
    with Inr have "r \<in> set (maintenance_requests d) \<and> id_literal d rid = Some (req_id r)"
      by (simp add: select_single_found)
    with assms(2) have "created_by_user_id r \<noteq> Some (user_id u)" by blast
    with Inr Some assms(1) show ?thesis by (simp add: notes_handler_def Let_def)
  qed
qed

lemma post_request_notes_success:
  "post_request_notes d f actor rid body_note = (Reply 200 payload, d') \<Longrightarrow>
   \<exists>u. actor = Some u \<and> hasPermission (Some u) ''add_notes'' = Inr True \<and>
       notes_handler d f u rid body_note = (Reply 200 payload, d')"
  by (cases actor)
     (auto simp: post_request_notes_def requirePermission_def notes_eval split: if_splits)

lemma post_request_notes_allowed:
  "hasPermission (Some u) ''add_notes'' = Inr True \<Longrightarrow>
   post_request_notes d f (Some u) rid body_note = notes_handler d f u rid body_note"
  by (simp add: post_request_notes_def requirePermission_def)

lemma stage_handler_written:
  assumes "stage_handler d f u rid b = (Reply 200 payload, d')"
  shows "\<exists>old\<in>set (maintenance_requests d). id_literal d rid = Some (req_id old) \<and>
           maintenance_requests d' =
             map (\<lambda>r. if req_id r = req_id old then apply_stage_body b old else r)
               (maintenance_requests d)"
proof -
  from assms obtain found old where f: "requests_eq_id d rid = Some found"
      "single_row found = Some old"
      "maintenance_requests d' =
         map (\<lambda>r. if req_id r = req_id old then apply_stage_body b old else r)
           (maintenance_requests d)"
    by (auto simp: stage_handler_def Let_def
          split: if_splits sum.splits option.splits outcome.splits)
  from f(1) obtain k where k: "id_literal d rid = Some k"
      "found = filter (\<lambda>r. req_id r = k) (maintenance_requests d)"
    by (auto simp: requests_eq_id_def split: option.splits)
  with f(2) have "old \<in> set (maintenance_requests d) \<and> req_id old = k"
    using single_row_member [of "\<lambda>r. req_id r = k" "maintenance_requests d" old] by simp
  with k(1) f(3) show ?thesis by blast
qed

lemma notes_handler_written:
  "notes_handler d f u rid body_note = (Reply 200 payload, d') \<Longrightarrow>
   d' = d\<lparr>request_notes := request_notes d @
          [\<lparr>note_request_id = parseInt rid, note_text = body_note,
            note_created_by_user_id = user_id u\<rparr>]\<rparr>"
  by (auto simp: notes_handler_def Let_def split: if_splits sum.splits option.splits outcome.splits)


section \<open>Unauthenticated and forbidden\<close>

lemma requirePermission_401:
  "(\<exists>payload. requirePermission action actor = Stop (Reply 401 payload)) = (actor = None)"
  by (cases actor) (auto simp: requirePermission_def split: sum.splits)

lemma requirePermission_403:
  "(\<exists>payload. requirePermission action actor = Stop (Reply 403 payload)) =
     (\<exists>u. actor = Some u \<and> hasPermission (Some u) action = Inr False)"
  by (cases actor) (auto simp: requirePermission_def split: sum.splits)

lemma requireRequestAccess_401:
  "(\<exists>payload. requireRequestAccess actor = Stop (Reply 401 payload)) = (actor = None)"
  by (cases actor) (auto simp: requireRequestAccess_def view_all_eval view_own_eval)

lemma requireRequestAccess_403:
  "(\<exists>payload. requireRequestAccess actor = Stop (Reply 403 payload)) =
     (\<exists>u. actor = Some u \<and> hasPermission (Some u) ''view_all_requests'' = Inr False \<and>
          hasPermission (Some u) ''view_own_requests'' = Inr False)"
  by (cases actor) (auto simp: requireRequestAccess_def view_all_eval view_own_eval)

lemma worksheet_eval:
  "hasPermission (Some (actor_with ''e1'' ''EMPLOYEE'')) ''add_worksheet'' = Inr False"
  by (simp add: hasPermission_def get_property_def permissions_def actor_with_def)

text \<open>
  Claim C8. The two gates answer 401 exactly when no actor is resolved, and 403 exactly
  when the actor is resolved and the action-level check returns false; a failed
  ownership check on a stage change or a note is answered 403 and a missing actor on
  those routes 401. No evaluation gives both.
\<close>

theorem unauthenticated_forbidden_distinct:
  "requirePermission action None = Stop (Reply 401 (Message ''Not authenticated'')) \<and>
   requireRequestAccess None = Stop (Reply 401 (Message ''Not authenticated'')) \<and>
   (hasPermission (Some u) action = Inr False \<longrightarrow>
      requirePermission action (Some u) =
        Stop (Reply 403 (Message ''You don't have permission to perform this action''))) \<and>
   (hasPermission (Some u) ''view_all_requests'' = Inr False \<and>
    hasPermission (Some u) ''view_own_requests'' = Inr False \<longrightarrow>
      requireRequestAccess (Some u) =
        Stop (Reply 403 (Message ''You don't have permission to view requests''))) \<and>
   ((\<exists>payload. requirePermission action actor = Stop (Reply 401 payload)) = (actor = None)) \<and>
   ((\<exists>payload. requirePermission action actor = Stop (Reply 403 payload)) =
      (\<exists>v. actor = Some v \<and> hasPermission (Some v) action = Inr False)) \<and>
   ((\<exists>payload. requireRequestAccess actor = Stop (Reply 401 payload)) = (actor = None)) \<and>
   ((\<exists>payload. requireRequestAccess actor = Stop (Reply 403 payload)) =
      (\<exists>v. actor = Some v \<and> hasPermission (Some v) ''view_all_requests'' = Inr False \<and>
           hasPermission (Some v) ''view_own_requests'' = Inr False)) \<and>
   (role t = JStr ''TECHNICIAN'' \<and> (\<forall>m. lookup_q f \<noteq> Thrown m) \<and>
    (\<forall>r\<in>set (maintenance_requests d).
       id_literal d rid = Some (req_id r) \<longrightarrow> technician_id r \<noteq> Some (user_id t)) \<longrightarrow>
      fst (put_request_stage d f (Some t) rid b) =
        Reply 403 (Message ''You can only update requests assigned to you'')) \<and>
   (role e = JStr ''EMPLOYEE'' \<and> (\<forall>m. owner_q g \<noteq> Thrown m) \<and>
    (\<forall>r\<in>set (maintenance_requests d).
       id_literal d rid = Some (req_id r) \<longrightarrow> created_by_user_id r \<noteq> Some (user_id e)) \<longrightarrow>
      fst (post_request_notes d g (Some e) rid body_note) =
        Reply 403 (Message ''You can only add notes to your own requests'')) \<and>
   fst (put_request_stage d f None rid b) = Reply 401 (Message ''Not authenticated'') \<and>
   fst (post_request_notes d g None rid body_note) = Reply 401 (Message ''Not authenticated'')"
proof (intro conjI impI)
  show "requirePermission action None = Stop (Reply 401 (Message ''Not authenticated''))"
    by (simp add: requirePermission_def)
  show "requireRequestAccess None = Stop (Reply 401 (Message ''Not authenticated''))"
    by (simp add: requireRequestAccess_def)
  show "requirePermission action (Some u) =
      Stop (Reply 403 (Message ''You don't have permission to perform this action''))"
    if "hasPermission (Some u) action = Inr False"
    using that by (simp add: requirePermission_def)
  show "requireRequestAccess (Some u) =
      Stop (Reply 403 (Message ''You don't have permission to view requests''))"
    if "hasPermission (Some u) ''view_all_requests'' = Inr False \<and>
        hasPermission (Some u) ''view_own_requests'' = Inr False"
    using that by (simp add: requireRequestAccess_def)
  show "(\<exists>payload. requirePermission action actor = Stop (Reply 401 payload)) = (actor = None)"
    by (rule requirePermission_401)
  show "(\<exists>payload. requirePermission action actor = Stop (Reply 403 payload)) =
      (\<exists>v. actor = Some v \<and> hasPermission (Some v) action = Inr False)"
    by (rule requirePermission_403)
  show "(\<exists>payload. requireRequestAccess actor = Stop (Reply 401 payload)) = (actor = None)"
    by (rule requireRequestAccess_401)
  show "(\<exists>payload. requireRequestAccess actor = Stop (Reply 403 payload)) =
      (\<exists>v. actor = Some v \<and> hasPermission (Some v) ''view_all_requests'' = Inr False \<and>
           hasPermission (Some v) ''view_own_requests'' = Inr False)"
    by (rule requireRequestAccess_403)
  show "fst (put_request_stage d f (Some t) rid b) =
        Reply 403 (Message ''You can only update requests assigned to you'')"
    if a: "role t = JStr ''TECHNICIAN'' \<and> (\<forall>m. lookup_q f \<noteq> Thrown m) \<and>
      (\<forall>r\<in>set (maintenance_requests d).
         id_literal d rid = Some (req_id r) \<longrightarrow> technician_id r \<noteq> Some (user_id t))"
  proof -
    from a have "hasPermission (Some t) ''update_request_stage'' = Inr True"
      by (simp add: stage_eval)
    then show ?thesis
      using a stage_handler_technician_denied [of t d rid f b]
      by (simp add: put_request_stage_allowed)
  qed
  show "fst (post_request_notes d g (Some e) rid body_note) =
        Reply 403 (Message ''You can only add notes to your own requests'')"
    if a: "role e = JStr ''EMPLOYEE'' \<and> (\<forall>m. owner_q g \<noteq> Thrown m) \<and>
      (\<forall>r\<in>set (maintenance_requests d).
         id_literal d rid = Some (req_id r) \<longrightarrow> created_by_user_id r \<noteq> Some (user_id e))"
  proof -
    from a have "hasPermission (Some e) ''add_notes'' = Inr True"
      by (simp add: notes_eval)
    then show ?thesis
      using a notes_handler_employee_denied [of e d rid g body_note]
      by (simp add: post_request_notes_allowed)
  qed
  show "fst (put_request_stage d f None rid b) = Reply 401 (Message ''Not authenticated'')"
    by (simp add: put_request_stage_def requirePermission_def)
  show "fst (post_request_notes d g None rid body_note) =
      Reply 401 (Message ''Not authenticated'')"
    by (simp add: post_request_notes_def requirePermission_def)
qed

theorem unauthenticated_forbidden_distinct_witness:
  "requirePermission ''add_worksheet'' (Some (actor_with ''e1'' ''EMPLOYEE'')) =
     Stop (Reply 403 (Message ''You don't have permission to perform this action'')) \<and>
   requireRequestAccess (Some (actor_with ''g1'' ''GUEST'')) =
     Stop (Reply 403 (Message ''You don't have permission to view requests'')) \<and>
   requirePermission ''add_worksheet'' None = Stop (Reply 401 (Message ''Not authenticated'')) \<and>
   fst (put_request_stage example_db all_ok (Some (actor_with ''t1'' ''TECHNICIAN'')) ''2''
          to_in_progress) =
     Reply 403 (Message ''You can only update requests assigned to you'') \<and>
   fst (post_request_notes example_db notes_ok (Some (actor_with ''e1'' ''EMPLOYEE'')) ''2''
          ''hello'') =
     Reply 403 (Message ''You can only add notes to your own requests'')"
proof -
  let ?t = "actor_with ''t1'' ''TECHNICIAN''"
  let ?e = "actor_with ''e1'' ''EMPLOYEE''"
  let ?g = "actor_with ''g1'' ''GUEST''"
  have e: "hasPermission (Some ?e) ''add_worksheet'' = Inr False"
    by (rule worksheet_eval)
  have g: "hasPermission (Some ?g) ''view_all_requests'' = Inr False \<and>
           hasPermission (Some ?g) ''view_own_requests'' = Inr False"
    by (simp add: view_all_eval view_own_eval actor_with_def)
  have t: "role ?t = JStr ''TECHNICIAN'' \<and> (\<forall>m. lookup_q all_ok \<noteq> Thrown m) \<and>
    (\<forall>r\<in>set (maintenance_requests example_db).
       id_literal example_db ''2'' = Some (req_id r) \<longrightarrow> technician_id r \<noteq> Some (user_id ?t))"
    by (simp add: actor_with_def all_ok_def example_db_def example_requests_def decimal_id_2)
  have n: "role ?e = JStr ''EMPLOYEE'' \<and> (\<forall>m. owner_q notes_ok \<noteq> Thrown m) \<and>
    (\<forall>r\<in>set (maintenance_requests example_db).
       id_literal example_db ''2'' = Some (req_id r) \<longrightarrow> created_by_user_id r \<noteq> Some (user_id ?e))"
    by (simp add: actor_with_def notes_ok_def example_db_def example_requests_def decimal_id_2)
  show ?thesis
    using e g t n
      unauthenticated_forbidden_distinct [where action = "''add_worksheet''" and u = ?e
        and actor = None and d = example_db and f = all_ok and g = notes_ok and rid = "''2''"
        and t = ?t and e = ?e and b = to_in_progress and body_note = "''hello''"]
      unauthenticated_forbidden_distinct [where action = "''add_worksheet''" and u = ?g
        and actor = None and d = example_db and f = all_ok and g = notes_ok and rid = "''2''"
        and t = ?t and e = ?e and b = to_in_progress and body_note = "''hello''"]
    by blast
qed

section \<open>Equipment\<close>

text \<open>
  Claim C5. Creating equipment is gated on \<^verbatim>\<open>manage_equipment\<close>, listing it is not: a
  request with no actor, and one from an EMPLOYEE, who is refused \<^verbatim>\<open>manage_equipment\<close>,
  both receive the equipment rows with status 200, where the gate of the creating route
  answers 401 and 403.
\<close>

theorem equipment_list_not_gated:
  "equipment example_db \<noteq> [] \<and>
   get_equipment example_db Ok None = Reply 200 (EquipmentList (equipment example_db)) \<and>
   hasPermission (Some (actor_with ''e1'' ''EMPLOYEE'')) ''manage_equipment'' = Inr False \<and>
   get_equipment example_db Ok (Some (actor_with ''e1'' ''EMPLOYEE'')) =
     Reply 200 (EquipmentList (equipment example_db)) \<and>
   post_equipment_gate None = Stop (Reply 401 (Message ''Not authenticated'')) \<and>
   post_equipment_gate (Some (actor_with ''e1'' ''EMPLOYEE'')) =
     Stop (Reply 403 (Message ''You don't have permission to perform this action''))"
  by (simp add: get_equipment_def order_desc_def example_db_def post_equipment_gate_def
      requirePermission_def hasPermission_def get_property_def permissions_def actor_with_def)

section \<open>Stage history\<close>

lemma stage_change_with_audit:
  "request_stage_history (snd (put_request_stage example_db all_ok
     (Some (actor_with ''m1'' ''MANAGER'')) ''1'' to_in_progress)) =
   [\<lparr>request_id = Some 1, from_stage = Some ''NEW_REQUEST'', to_stage = Some ''IN_PROGRESS'',
     changed_by_user_id = ''m1''\<rparr>]"
  by (simp add: put_request_stage_def requirePermission_def stage_eval stage_handler_def
      select_single_def single_row_def requests_eq_id_def decimal_id_1 js_number_1 parseInt_1
      actor_with_def example_db_def example_requests_def all_ok_def to_in_progress_def
      apply_stage_body_def Let_def)

text \<open>
  Claim C6. When every call to the store works, a stage change appends the prior stage,
  the new stage and the actor to the history (lemma \<open>stage_change_with_audit\<close>). When
  the insert into the history resolves with an error, the handler does not look at it:
  a MANAGER moving request 1 to \<^verbatim>\<open>IN_PROGRESS\<close> is answered 200, the stage is changed and
  the history stays empty.
\<close>

theorem stage_change_without_audit:
  "fst (put_request_stage example_db history_fails (Some (actor_with ''m1'' ''MANAGER'')) ''1''
          to_in_progress) =
     Reply 200 (StageUpdated ''Stage updated''
       \<lparr>req_id = 1, stage = ''IN_PROGRESS'', blocked = False, created_by_user_id = Some ''e1'',
        technician_id = Some ''t1'', created_at = 5\<rparr>) \<and>
   map stage (maintenance_requests (snd (put_request_stage example_db history_fails
     (Some (actor_with ''m1'' ''MANAGER'')) ''1'' to_in_progress))) = [''IN_PROGRESS'', ''NEW_REQUEST''] \<and>
   request_stage_history (snd (put_request_stage example_db history_fails
     (Some (actor_with ''m1'' ''MANAGER'')) ''1'' to_in_progress)) = []"
  by (simp add: put_request_stage_def requirePermission_def stage_eval stage_handler_def
      select_single_def single_row_def requests_eq_id_def decimal_id_1 js_number_1 parseInt_1
      actor_with_def example_db_def example_requests_def history_fails_def to_in_progress_def
      apply_stage_body_def Let_def)

section \<open>Frontend and backend\<close>

lemma same_matrix: "frontend_permissions = permissions"
  by (simp add: frontend_permissions_def permissions_def)

text \<open>
  Claim C9. The frontend check and the backend check have the same outcome for every
  actor, null ones and ones with a missing or unknown role included, and every action
  name: the same boolean, or the same TypeError where they throw.
\<close>

theorem frontend_backend_agree:
  "frontend_hasPermission user action = hasPermission user action"
  by (cases user) (simp_all add: frontend_hasPermission_def hasPermission_def same_matrix)

section \<open>Roles at signup\<close>

text \<open>
  Claim C10. Signup reads no actor. When the provider creates the user and the profile
  update works, the reply is 200 and the account carries the requested role if that is
  one of ADMIN, MANAGER, TECHNICIAN, EMPLOYEE (so ADMIN for the asking), and EMPLOYEE
  for any other or missing role, in the profile as in the provider's metadata.
\<close>

theorem signup_role_as_requested:
  assumes "sign_up env = SignUpUser uid"
    and "trigger_profile env = Some r0"
    and "profile_update env = Ok"
  shows "fst (post_auth_signup d env b) =
           Reply 200 (SignedUp ''Signup successful! You can now log in.'' (Some (body_email b))) \<and>
         (body_role b \<in> {JStr ''ADMIN'', JStr ''MANAGER'', JStr ''TECHNICIAN'', JStr ''EMPLOYEE''} \<longrightarrow>
            \<lparr>user_id = uid, role = body_role b\<rparr> \<in> set (profiles (snd (post_auth_signup d env b))) \<and>
            \<lparr>auth_id = uid, auth_email = body_email b, meta_role = body_role b\<rparr>
              \<in> set (auth_users (snd (post_auth_signup d env b)))) \<and>
         (body_role b \<notin> {JStr ''ADMIN'', JStr ''MANAGER'', JStr ''TECHNICIAN'', JStr ''EMPLOYEE''} \<longrightarrow>
            \<lparr>user_id = uid, role = JStr ''EMPLOYEE''\<rparr>
              \<in> set (profiles (snd (post_auth_signup d env b))) \<and>
            \<lparr>auth_id = uid, auth_email = body_email b, meta_role = JStr ''EMPLOYEE''\<rparr>
              \<in> set (auth_users (snd (post_auth_signup d env b))))"
proof -
  have inc: "array_includes validRoles (body_role b) =
      (body_role b \<in> {JStr ''ADMIN'', JStr ''MANAGER'', JStr ''TECHNICIAN'', JStr ''EMPLOYEE''})"
    by (cases "body_role b") (auto simp: validRoles_def)
  show ?thesis
    using assms by (simp add: post_auth_signup_def Let_def inc)
qed

theorem signup_role_as_requested_witness:
  "\<lparr>user_id = ''n1'', role = JStr ''ADMIN''\<rparr>
     \<in> set (profiles (snd (post_auth_signup example_db example_signup_env
           \<lparr>body_email = ''x@example.org'', body_role = JStr ''ADMIN''\<rparr>))) \<and>
   \<lparr>user_id = ''n1'', role = JStr ''EMPLOYEE''\<rparr>
     \<in> set (profiles (snd (post_auth_signup example_db example_signup_env
           \<lparr>body_email = ''y@example.org'', body_role = JStr ''ROOT''\<rparr>))) \<and>
   \<lparr>user_id = ''n1'', role = JStr ''EMPLOYEE''\<rparr>
     \<in> set (profiles (snd (post_auth_signup example_db example_signup_env
           \<lparr>body_email = ''z@example.org'', body_role = JUndefined\<rparr>)))"
proof -
  have env: "sign_up example_signup_env = SignUpUser ''n1''"
    "trigger_profile example_signup_env = Some (JStr ''EMPLOYEE'')"
    "profile_update example_signup_env = Ok"
    by (simp_all add: example_signup_env_def)
  show ?thesis
    using signup_role_as_requested [OF env, of example_db
        "\<lparr>body_email = ''x@example.org'', body_role = JStr ''ADMIN''\<rparr>"]
      signup_role_as_requested [OF env, of example_db
        "\<lparr>body_email = ''y@example.org'', body_role = JStr ''ROOT''\<rparr>"]
      signup_role_as_requested [OF env, of example_db
        "\<lparr>body_email = ''z@example.org'', body_role = JUndefined\<rparr>"]
    by simp
qed

end
